theory Spec2Isabelle
  imports Main
begin

section \<open>Python values, strings and the environment\<close>

text \<open>
  The handler of \<^verbatim>\<open>src/lambda_function.py\<close> reads an invocation payload (a
  dictionary of JSON values), the process environment (a dictionary of strings) and
  a sequence of Elastic IP resources. Scalar JSON values are modelled; arrays,
  objects and floating-point numbers are left out (none of them can occur as a log
  field of the handler, and \<^verbatim>\<open>str\<close> of none of them is a spelling of
  \<^verbatim>\<open>true\<close>).
\<close>

datatype pyval = PyNone | PyBool bool | PyInt int | PyStr string

definition digit_char :: "nat \<Rightarrow> char" where
  "digit_char d = ''0123456789'' ! (d mod 10)"

fun digits :: "nat \<Rightarrow> string" where
  "digits n = (if n < 10 then [digit_char n] else digits (n div 10) @ [digit_char (n mod 10)])"

declare digits.simps [simp del]

text \<open>Python's \<^verbatim>\<open>str(v)\<close> on a scalar.\<close>

fun py_str :: "pyval \<Rightarrow> string" where
  "py_str PyNone = ''None''"
| "py_str (PyBool b) = (if b then ''True'' else ''False'')"
| "py_str (PyInt i) = (if i < 0 then CHR ''-'' # digits (nat (- i)) else digits (nat i))"
| "py_str (PyStr s) = s"

text \<open>
  Python's \<^verbatim>\<open>s.lower()\<close>: the letters A to Z are replaced by a to z. A
  \<^typ>\<open>char\<close> is a byte; no character outside ASCII has one of the letters of
  \<^verbatim>\<open>true\<close> as its lower case, so bytes outside A to Z are kept.
\<close>

definition lower_char :: "char \<Rightarrow> char" where
  "lower_char c =
     (case map_of (zip ''ABCDEFGHIJKLMNOPQRSTUVWXYZ'' ''abcdefghijklmnopqrstuvwxyz'') c of
        None \<Rightarrow> c
      | Some d \<Rightarrow> d)"

definition lower :: "string \<Rightarrow> string" where
  "lower s = map lower_char s"

text \<open>\<^verbatim>\<open>os.getenv(key, default)\<close> and \<^verbatim>\<open>event.get(key, default)\<close>.\<close>

definition getenv :: "(string \<rightharpoonup> string) \<Rightarrow> string \<Rightarrow> string \<Rightarrow> string" where
  "getenv env key dflt = (case env key of None \<Rightarrow> dflt | Some v \<Rightarrow> v)"

definition dict_get :: "(string \<rightharpoonup> pyval) \<Rightarrow> string \<Rightarrow> pyval \<Rightarrow> pyval" where
  "dict_get d key dflt = (case d key of None \<Rightarrow> dflt | Some v \<Rightarrow> v)"

section \<open>Tags\<close>

text \<open>
  One element of an AWS \<^verbatim>\<open>Tags\<close> list is a dictionary read with
  \<^verbatim>\<open>t.get("Key")\<close> and \<^verbatim>\<open>t.get("Value")\<close>; either entry may be missing.
\<close>

record tag =
  Key :: "string option"
  Value :: "string option"

text \<open>The \<^verbatim>\<open>for t in tags\<close> loop of \<^verbatim>\<open>_get_tag_value\<close>.\<close>

fun scan_tags :: "tag list \<Rightarrow> string \<Rightarrow> string option" where
  "scan_tags [] key = None"
| "scan_tags (t # ts) key = (if Key t = Some key then Value t else scan_tags ts key)"

text \<open>
  \<^verbatim>\<open>_get_tag_value(tags, key)\<close>: \<^verbatim>\<open>not tags\<close> holds for \<^verbatim>\<open>None\<close> and
  for the empty list.
\<close>

definition get_tag_value :: "tag list option \<Rightarrow> string \<Rightarrow> string option" where
  "get_tag_value tags key =
     (case tags of
        None \<Rightarrow> None
      | Some [] \<Rightarrow> None
      | Some (t # ts) \<Rightarrow> scan_tags (t # ts) key)"

section \<open>Configuration\<close>

record config =
  dry_run :: bool
  MANAGED_TAG_KEY :: string
  MANAGED_TAG_VALUE :: string
  PROTECT_TAG_KEY :: string
  PROTECT_TAG_VALUE :: string
  METRICS_ENABLED :: bool
  METRICS_NAMESPACE :: string

text \<open>Lines 79 to 92 of \<^verbatim>\<open>lambda_handler\<close>.\<close>

definition read_config :: "(string \<rightharpoonup> pyval) \<Rightarrow> (string \<rightharpoonup> string) \<Rightarrow> config" where
  "read_config event env =
     \<lparr> dry_run =
         (lower (py_str (dict_get event ''dry_run'' (PyStr (getenv env ''DRY_RUN'' ''false''))))
            = ''true''),
       MANAGED_TAG_KEY = getenv env ''MANAGED_TAG_KEY'' ''ManagedBy'',
       MANAGED_TAG_VALUE = getenv env ''MANAGED_TAG_VALUE'' ''ManageEIPs'',
       PROTECT_TAG_KEY = getenv env ''PROTECT_TAG_KEY'' ''Protection'',
       PROTECT_TAG_VALUE = getenv env ''PROTECT_TAG_VALUE'' ''DoNotRelease'',
       METRICS_ENABLED = (lower (py_str (PyStr (getenv env ''METRICS_ENABLED'' ''true''))) = ''true''),
       METRICS_NAMESPACE = getenv env ''METRICS_NAMESPACE'' ''Custom/FinOps'' \<rparr>"

section \<open>Resources, exceptions and effects\<close>

text \<open>
  A \<^verbatim>\<open>ClientError\<close> carries the service's response, read by the handler with
  \<^verbatim>\<open>e.response.get("Error", {}).get("Code", "Unknown")\<close>: the \<^verbatim>\<open>Error\<close>
  entry may be missing, and so may its \<^verbatim>\<open>Code\<close>. The second argument of
  each exception is its \<^verbatim>\<open>str(e)\<close>.
\<close>

record error_dict =
  Code :: "string option"

record response =
  Error :: "error_dict option"

datatype py_exception =
    ClientError response string
  | OtherException string string  \<comment> \<open>any other subclass of \<^verbatim>\<open>Exception\<close>: type name, message\<close>
  | BaseOnly string  \<comment> \<open>a \<^verbatim>\<open>BaseException\<close> outside \<^verbatim>\<open>Exception\<close>: no handler catches it\<close>

text \<open>
  One element of \<^verbatim>\<open>ec2_resource.vpc_addresses.all()\<close>: the attributes the
  handler reads, and what the external call \<^verbatim>\<open>elastic_ip.release()\<close> does when
  it is made (\<open>None\<close>: it returns; \<open>Some x\<close>: it raises \<open>x\<close>). The attributes are a
  snapshot filled in by the enumeration, so reading them does not fail.
\<close>

record eip =
  allocation_id :: string
  tags :: "tag list option"
  instance_id :: "string option"
  release :: "py_exception option"

text \<open>
  What a run does to the outside: a structured log line
  (\<^verbatim>\<open>log(level, message, **fields)\<close>), an EMF metrics record
  (\<^verbatim>\<open>emit_emf_metrics(namespace, dimensions, metrics)\<close>, without its wall-clock
  timestamp), and a call of \<^verbatim>\<open>release()\<close> on the resource with the given
  allocation id.
\<close>

datatype effect =
    Log string string "(string \<times> pyval) list"
  | Emf string "(string \<times> string) list" "(string \<times> int) list"
  | Release string

text \<open>The counters, local variables of \<^verbatim>\<open>lambda_handler\<close> (lines 112 to 118).\<close>

record counters =
  scanned :: int
  skipped_not_managed :: int
  skipped_protected :: int
  associated :: int
  would_release :: int
  released :: int
  per_eip_errors :: int

definition zero_counters :: counters where
  "zero_counters =
     \<lparr> scanned = 0, skipped_not_managed = 0, skipped_protected = 0, associated = 0,
       would_release = 0, released = 0, per_eip_errors = 0 \<rparr>"

text \<open>
  The result of a piece of the loop: the counters after it, the effects it had, in
  order, and the exception that leaves it, if any.
\<close>

type_synonym outcome = "counters \<times> effect list \<times> py_exception option"

section \<open>The reconciliation loop\<close>

text \<open>The body of the \<^verbatim>\<open>try\<close> block, lines 124 to 172.\<close>

definition try_body :: "config \<Rightarrow> eip \<Rightarrow> counters \<Rightarrow> outcome" where
  "try_body cfg elastic_ip c =
     (let tgs = (case tags elastic_ip of None \<Rightarrow> [] | Some [] \<Rightarrow> [] | Some (t # ts) \<Rightarrow> t # ts);
          managed_val = get_tag_value (Some tgs) (MANAGED_TAG_KEY cfg);
          protect_val = get_tag_value (Some tgs) (PROTECT_TAG_KEY cfg)
      in
        if managed_val \<noteq> Some (MANAGED_TAG_VALUE cfg) then
          (c\<lparr>skipped_not_managed := skipped_not_managed c + 1\<rparr>, [], None)
        else if protect_val = Some (PROTECT_TAG_VALUE cfg) then
          (c\<lparr>skipped_protected := skipped_protected c + 1\<rparr>,
           [Log ''INFO'' ''Skipping protected Elastic IP''
              [(''allocation_id'', PyStr (allocation_id elastic_ip)),
               (''action'', PyStr ''skip''),
               (''reason'', PyStr ''protected''),
               (''dry_run'', PyBool (dry_run cfg))]],
           None)
        else if instance_id elastic_ip \<noteq> None then
          (c\<lparr>associated := associated c + 1\<rparr>, [], None)
        else if dry_run cfg then
          (c\<lparr>would_release := would_release c + 1\<rparr>,
           [Log ''INFO'' ''Elastic IP would be released (dry-run)''
              [(''allocation_id'', PyStr (allocation_id elastic_ip)),
               (''action'', PyStr ''release''),
               (''dry_run'', PyBool True)]],
           None)
        else
          (let out =
                 [Log ''INFO'' ''Releasing unassociated Elastic IP''
                    [(''allocation_id'', PyStr (allocation_id elastic_ip)),
                     (''action'', PyStr ''release''),
                     (''dry_run'', PyBool False)],
                  Release (allocation_id elastic_ip)]
           in case release elastic_ip of
                None \<Rightarrow> (c\<lparr>released := released c + 1\<rparr>, out, None)
              | Some x \<Rightarrow> (c, out, Some x)))"

text \<open>Line 181.\<close>

definition error_code :: "response \<Rightarrow> string" where
  "error_code r =
     (case Error r of
        None \<Rightarrow> ''Unknown''
      | Some d \<Rightarrow> (case Code d of None \<Rightarrow> ''Unknown'' | Some code \<Rightarrow> code))"

text \<open>The set literal of lines 191 to 199.\<close>

definition fatal_codes :: "string list" where
  "fatal_codes =
     [''AccessDenied'', ''AccessDeniedException'', ''UnauthorizedOperation'',
      ''UnrecognizedClientException'', ''InvalidClientTokenId'', ''SignatureDoesNotMatch'',
      ''ExpiredToken'']"

text \<open>
  One iteration of the \<^verbatim>\<open>for\<close> loop, lines 121 to 218: \<^verbatim>\<open>scanned += 1\<close>, the
  \<^verbatim>\<open>try\<close> block and its two handlers.
\<close>

definition iteration :: "config \<Rightarrow> eip \<Rightarrow> counters \<Rightarrow> outcome" where
  "iteration cfg elastic_ip c =
     (case try_body cfg elastic_ip (c\<lparr>scanned := scanned c + 1\<rparr>) of
        (c1, out, None) \<Rightarrow> (c1, out, None)
      | (c1, out, Some (ClientError r msg)) \<Rightarrow>
          (let c2 = c1\<lparr>per_eip_errors := per_eip_errors c1 + 1\<rparr>;
               code = error_code r;
               out2 = out @
                 [Log ''ERROR'' ''AWS ClientError while processing Elastic IP''
                    [(''allocation_id'', PyStr (allocation_id elastic_ip)),
                     (''error_code'', PyStr code),
                     (''error_message'', PyStr msg)]]
           in if code \<in> set fatal_codes then (c2, out2, Some (ClientError r msg))
              else (c2, out2, None))
      | (c1, out, Some (OtherException ty msg)) \<Rightarrow>
          (c1,
           out @
             [Log ''ERROR'' ''Unexpected error while processing Elastic IP''
                [(''allocation_id'', PyStr (allocation_id elastic_ip)),
                 (''error_type'', PyStr ty),
                 (''error_message'', PyStr msg)]],
           Some (OtherException ty msg))
      | (c1, out, Some (BaseOnly n)) \<Rightarrow> (c1, out, Some (BaseOnly n)))"

text \<open>
  The \<^verbatim>\<open>for\<close> loop over the enumerated resources: an exception that leaves an
  iteration leaves the loop, and the resources after it are not looked at.
\<close>

fun loop :: "config \<Rightarrow> eip list \<Rightarrow> counters \<Rightarrow> outcome" where
  "loop cfg [] c = (c, [], None)"
| "loop cfg (elastic_ip # rest) c =
     (case iteration cfg elastic_ip c of
        (c1, out, Some x) \<Rightarrow> (c1, out, Some x)
      | (c1, out, None) \<Rightarrow>
          (case loop cfg rest c1 of (c2, out2, r) \<Rightarrow> (c2, out @ out2, r)))"

section \<open>The handler\<close>

text \<open>The Lambda context object, of which two attributes are read; it may be \<^verbatim>\<open>None\<close>.\<close>

record lambda_context =
  function_name :: string
  aws_request_id :: string

definition opt_str :: "string option \<Rightarrow> pyval" where
  "opt_str v = (case v of None \<Rightarrow> PyNone | Some s \<Rightarrow> PyStr s)"

text \<open>The start line, lines 95 to 107.\<close>

definition start_log :: "config \<Rightarrow> lambda_context option \<Rightarrow> effect" where
  "start_log cfg context =
     Log ''INFO'' ''ManageEIPs start''
       [(''dry_run'', PyBool (dry_run cfg)),
        (''function_name'', opt_str (map_option function_name context)),
        (''request_id'', opt_str (map_option aws_request_id context)),
        (''managed_tag_key'', PyStr (MANAGED_TAG_KEY cfg)),
        (''managed_tag_value'', PyStr (MANAGED_TAG_VALUE cfg)),
        (''protect_tag_key'', PyStr (PROTECT_TAG_KEY cfg)),
        (''protect_tag_value'', PyStr (PROTECT_TAG_VALUE cfg)),
        (''metrics_enabled'', PyBool (METRICS_ENABLED cfg)),
        (''metrics_namespace'', PyStr (METRICS_NAMESPACE cfg))]"

text \<open>The summary line, lines 224 to 235.\<close>

definition summary_log :: "config \<Rightarrow> counters \<Rightarrow> effect" where
  "summary_log cfg c =
     Log ''INFO'' ''ManageEIPs completed''
       [(''dry_run'', PyBool (dry_run cfg)),
        (''scanned'', PyInt (scanned c)),
        (''skipped_not_managed'', PyInt (skipped_not_managed c)),
        (''skipped_protected'', PyInt (skipped_protected c)),
        (''associated'', PyInt (associated c)),
        (''would_release'', PyInt (would_release c)),
        (''released'', PyInt (released c)),
        (''per_eip_errors'', PyInt (per_eip_errors c))]"

text \<open>The metrics record, lines 239 to 252.\<close>

definition summary_metrics :: "config \<Rightarrow> lambda_context option \<Rightarrow> counters \<Rightarrow> effect" where
  "summary_metrics cfg context c =
     Emf (METRICS_NAMESPACE cfg)
       [(''FunctionName'', (case context of None \<Rightarrow> ''ManageEIPs'' | Some ctx \<Rightarrow> function_name ctx))]
       [(''EIPsScanned'', scanned c),
        (''EIPsSkippedNotManaged'', skipped_not_managed c),
        (''EIPsSkippedProtected'', skipped_protected c),
        (''EIPsAssociated'', associated c),
        (''EIPsWouldRelease'', would_release c),
        (''EIPsReleased'', released c),
        (''EIPsPerEipErrors'', per_eip_errors c)]"

text \<open>
  \<^verbatim>\<open>lambda_handler(event, context)\<close>, given the environment and the resources
  the enumeration yields: the effects of the run and either the exception that
  leaves the handler or the value it returns (status code and body).
\<close>

definition lambda_handler ::
  "(string \<rightharpoonup> pyval) \<Rightarrow> lambda_context option \<Rightarrow> (string \<rightharpoonup> string) \<Rightarrow> eip list
     \<Rightarrow> effect list \<times> (py_exception + int \<times> string)" where
  "lambda_handler event context env resources =
     (let cfg = read_config event env
      in case loop cfg resources zero_counters of
           (c, out, Some x) \<Rightarrow> (start_log cfg context # out, Inl x)
         | (c, out, None) \<Rightarrow>
             (start_log cfg context # out @ [summary_log cfg c]
                @ (if METRICS_ENABLED cfg then [summary_metrics cfg context c] else []),
              Inr (200, ''Processed elastic IPs.'')))"

text \<open>Whether an effect is the end-of-run summary line or the metrics record.\<close>

fun is_summary :: "effect \<Rightarrow> bool" where
  "is_summary (Log level message kvs) = (message = ''ManageEIPs completed'')"
| "is_summary (Emf namespace dims ms) = True"
| "is_summary (Release a) = False"

text \<open>The allocation ids on which \<^verbatim>\<open>release()\<close> was called, in order.\<close>

fun release_calls :: "effect list \<Rightarrow> string list" where
  "release_calls [] = []"
| "release_calls (Log level message kvs # es) = release_calls es"
| "release_calls (Emf namespace dims ms # es) = release_calls es"
| "release_calls (Release a # es) = a # release_calls es"

section \<open>Example inputs\<close>

text \<open>
  The default configuration in destructive mode and in dry-run mode, and resources
  of the kinds the scenarios of the specification use.
\<close>

definition cfg_live :: config where
  "cfg_live = read_config Map.empty Map.empty"

definition cfg_dry :: config where
  "cfg_dry = read_config [''dry_run'' \<mapsto> PyBool True] Map.empty"

definition managed_tag :: tag where
  "managed_tag = \<lparr> Key = Some ''ManagedBy'', Value = Some ''ManageEIPs'' \<rparr>"

definition protect_tag :: tag where
  "protect_tag = \<lparr> Key = Some ''Protection'', Value = Some ''DoNotRelease'' \<rparr>"

definition eip_untagged :: eip where
  "eip_untagged =
     \<lparr> allocation_id = ''eipalloc-1'', tags = None, instance_id = None, release = None \<rparr>"

definition eip_protected :: eip where
  "eip_protected =
     \<lparr> allocation_id = ''eipalloc-2'', tags = Some [managed_tag, protect_tag],
       instance_id = None, release = None \<rparr>"

definition eip_associated :: eip where
  "eip_associated =
     \<lparr> allocation_id = ''eipalloc-3'', tags = Some [managed_tag],
       instance_id = Some ''i-0abc'', release = None \<rparr>"

definition eip_idle :: eip where
  "eip_idle =
     \<lparr> allocation_id = ''eipalloc-4'', tags = Some [managed_tag],
       instance_id = None, release = None \<rparr>"

definition access_denied :: py_exception where
  "access_denied =
     ClientError \<lparr> Error = Some \<lparr> Code = Some ''AccessDenied'' \<rparr> \<rparr> ''access denied''"

definition throttled :: py_exception where
  "throttled =
     ClientError \<lparr> Error = Some \<lparr> Code = Some ''RequestLimitExceeded'' \<rparr> \<rparr> ''slow down''"

definition eip_denied :: eip where
  "eip_denied = eip_idle \<lparr> allocation_id := ''eipalloc-5'', release := Some access_denied \<rparr>"

definition eip_throttled :: eip where
  "eip_throttled = eip_idle \<lparr> allocation_id := ''eipalloc-6'', release := Some throttled \<rparr>"

section \<open>Strings: comparison with \<^verbatim>\<open>true\<close>\<close>

lemma lower_char_t: "lower_char c = CHR ''t'' \<longleftrightarrow> c = CHR ''t'' \<or> c = CHR ''T''"
  by (simp add: lower_char_def)

lemma lower_char_r: "lower_char c = CHR ''r'' \<longleftrightarrow> c = CHR ''r'' \<or> c = CHR ''R''"
  by (simp add: lower_char_def)

lemma lower_char_u: "lower_char c = CHR ''u'' \<longleftrightarrow> c = CHR ''u'' \<or> c = CHR ''U''"
  by (simp add: lower_char_def)

lemma lower_char_e: "lower_char c = CHR ''e'' \<longleftrightarrow> c = CHR ''e'' \<or> c = CHR ''E''"
  by (simp add: lower_char_def)

lemma lower_true:
  "lower s = ''true'' \<longleftrightarrow>
     (\<exists>a b c d. s = [a, b, c, d] \<and> (a = CHR ''t'' \<or> a = CHR ''T'') \<and> (b = CHR ''r'' \<or> b = CHR ''R'')
        \<and> (c = CHR ''u'' \<or> c = CHR ''U'') \<and> (d = CHR ''e'' \<or> d = CHR ''E''))"
proof -
  have "lower s = ''true'' \<longleftrightarrow>
     (\<exists>a b c d. s = [a, b, c, d] \<and> lower_char a = CHR ''t'' \<and> lower_char b = CHR ''r''
        \<and> lower_char c = CHR ''u'' \<and> lower_char d = CHR ''e'')"
    unfolding lower_def by (auto simp: map_eq_Cons_conv)
  then show ?thesis
    by (simp only: lower_char_t lower_char_r lower_char_u lower_char_e)
qed

lemma digit_char_not_e: "lower_char (digit_char d) \<noteq> CHR ''e''"
proof -
  have "d mod 10 < 10" by simp
  then have "d mod 10 = 0 \<or> d mod 10 = 1 \<or> d mod 10 = 2 \<or> d mod 10 = 3 \<or> d mod 10 = 4
      \<or> d mod 10 = 5 \<or> d mod 10 = 6 \<or> d mod 10 = 7 \<or> d mod 10 = 8 \<or> d mod 10 = 9"
    by arith
  then show ?thesis
    unfolding digit_char_def lower_char_e by (elim disjE) simp_all
qed

lemma digits_last: "\<exists>pre d. digits n = pre @ [digit_char d]"
  by (subst digits.simps) auto

lemma lower_int: "lower (py_str (PyInt i)) \<noteq> ''true''"
proof -
  obtain pre d where "py_str (PyInt i) = pre @ [digit_char d]"
  proof (cases "i < 0")
    case True
    obtain p d where "digits (nat (- i)) = p @ [digit_char d]" using digits_last by blast
    with True have "py_str (PyInt i) = (CHR ''-'' # p) @ [digit_char d]" by simp
    then show ?thesis using that by blast
  next
    case False
    obtain p d where "digits (nat i) = p @ [digit_char d]" using digits_last by blast
    with False have "py_str (PyInt i) = p @ [digit_char d]" by simp
    then show ?thesis using that by blast
  qed
  then have "last (lower (py_str (PyInt i))) = lower_char (digit_char d)"
    by (simp add: lower_def)
  then show ?thesis using digit_char_not_e [of d] by auto
qed

section \<open>Tag lookup\<close>

lemma scan_tags_first:
  "\<forall>u \<in> set pre. Key u \<noteq> Some key \<Longrightarrow> Key t = Some key \<Longrightarrow>
     scan_tags (pre @ t # post) key = Value t"
  by (induction pre) auto

lemma get_tag_value_or_empty:
  "get_tag_value (Some (case tgs of None \<Rightarrow> [] | Some [] \<Rightarrow> [] | Some (t # ts) \<Rightarrow> t # ts)) key
     = get_tag_value tgs key"
  by (simp add: get_tag_value_def split: option.splits list.splits)

section \<open>The branches of one iteration\<close>

lemma try_body_not_managed:
  "get_tag_value (tags e) (MANAGED_TAG_KEY cfg) \<noteq> Some (MANAGED_TAG_VALUE cfg) \<Longrightarrow>
   try_body cfg e c = (c\<lparr>skipped_not_managed := skipped_not_managed c + 1\<rparr>, [], None)"
  by (simp add: try_body_def get_tag_value_or_empty Let_def)

lemma try_body_protected:
  "get_tag_value (tags e) (MANAGED_TAG_KEY cfg) = Some (MANAGED_TAG_VALUE cfg) \<Longrightarrow>
   get_tag_value (tags e) (PROTECT_TAG_KEY cfg) = Some (PROTECT_TAG_VALUE cfg) \<Longrightarrow>
   try_body cfg e c =
     (c\<lparr>skipped_protected := skipped_protected c + 1\<rparr>,
      [Log ''INFO'' ''Skipping protected Elastic IP''
         [(''allocation_id'', PyStr (allocation_id e)), (''action'', PyStr ''skip''),
          (''reason'', PyStr ''protected''), (''dry_run'', PyBool (dry_run cfg))]],
      None)"
  by (simp add: try_body_def get_tag_value_or_empty Let_def)

lemma try_body_associated:
  "get_tag_value (tags e) (MANAGED_TAG_KEY cfg) = Some (MANAGED_TAG_VALUE cfg) \<Longrightarrow>
   get_tag_value (tags e) (PROTECT_TAG_KEY cfg) \<noteq> Some (PROTECT_TAG_VALUE cfg) \<Longrightarrow>
   instance_id e \<noteq> None \<Longrightarrow>
   try_body cfg e c = (c\<lparr>associated := associated c + 1\<rparr>, [], None)"
  by (simp add: try_body_def get_tag_value_or_empty Let_def)

lemma try_body_would_release:
  "get_tag_value (tags e) (MANAGED_TAG_KEY cfg) = Some (MANAGED_TAG_VALUE cfg) \<Longrightarrow>
   get_tag_value (tags e) (PROTECT_TAG_KEY cfg) \<noteq> Some (PROTECT_TAG_VALUE cfg) \<Longrightarrow>
   instance_id e = None \<Longrightarrow> dry_run cfg \<Longrightarrow>
   try_body cfg e c =
     (c\<lparr>would_release := would_release c + 1\<rparr>,
      [Log ''INFO'' ''Elastic IP would be released (dry-run)''
         [(''allocation_id'', PyStr (allocation_id e)), (''action'', PyStr ''release''),
          (''dry_run'', PyBool True)]],
      None)"
  by (simp add: try_body_def get_tag_value_or_empty Let_def)

lemma try_body_release:
  "get_tag_value (tags e) (MANAGED_TAG_KEY cfg) = Some (MANAGED_TAG_VALUE cfg) \<Longrightarrow>
   get_tag_value (tags e) (PROTECT_TAG_KEY cfg) \<noteq> Some (PROTECT_TAG_VALUE cfg) \<Longrightarrow>
   instance_id e = None \<Longrightarrow> \<not> dry_run cfg \<Longrightarrow>
   try_body cfg e c =
     ((case release e of None \<Rightarrow> c\<lparr>released := released c + 1\<rparr> | Some x \<Rightarrow> c),
      [Log ''INFO'' ''Releasing unassociated Elastic IP''
         [(''allocation_id'', PyStr (allocation_id e)), (''action'', PyStr ''release''),
          (''dry_run'', PyBool False)],
       Release (allocation_id e)],
      release e)"
  by (simp add: try_body_def get_tag_value_or_empty Let_def split: option.splits)

text \<open>
  When no exception leaves the \<^verbatim>\<open>try\<close> block it has counted the resource in one
  of five buckets; when one does, it has counted nothing.
\<close>

lemma try_body_buckets:
  "try_body cfg e c = (c1, out, r) \<Longrightarrow>
     (r = None \<and>
        (c1 = c\<lparr>skipped_not_managed := skipped_not_managed c + 1\<rparr>
         \<or> c1 = c\<lparr>skipped_protected := skipped_protected c + 1\<rparr>
         \<or> c1 = c\<lparr>associated := associated c + 1\<rparr>
         \<or> c1 = c\<lparr>would_release := would_release c + 1\<rparr>
         \<or> c1 = c\<lparr>released := released c + 1\<rparr>))
     \<or> (r \<noteq> None \<and> c1 = c)"
  by (auto simp: try_body_def get_tag_value_or_empty Let_def split: if_splits option.splits)

lemma iteration_buckets:
  assumes "iteration cfg e c = (c1, out, None)"
  shows "c1 = c\<lparr>scanned := scanned c + 1, skipped_not_managed := skipped_not_managed c + 1\<rparr>
         \<or> c1 = c\<lparr>scanned := scanned c + 1, skipped_protected := skipped_protected c + 1\<rparr>
         \<or> c1 = c\<lparr>scanned := scanned c + 1, associated := associated c + 1\<rparr>
         \<or> c1 = c\<lparr>scanned := scanned c + 1, would_release := would_release c + 1\<rparr>
         \<or> c1 = c\<lparr>scanned := scanned c + 1, released := released c + 1\<rparr>
         \<or> c1 = c\<lparr>scanned := scanned c + 1, per_eip_errors := per_eip_errors c + 1\<rparr>"
proof -
  obtain c0 o0 r0 where tb: "try_body cfg e (c\<lparr>scanned := scanned c + 1\<rparr>) = (c0, o0, r0)"
    by (cases "try_body cfg e (c\<lparr>scanned := scanned c + 1\<rparr>)") auto
  show ?thesis
  proof (cases r0)
    case None
    with tb assms have "c1 = c0" by (simp add: iteration_def)
    with try_body_buckets [OF tb] None show ?thesis by auto
  next
    case (Some x)
    with try_body_buckets [OF tb] have c0: "c0 = c\<lparr>scanned := scanned c + 1\<rparr>" by simp
    from assms tb Some c0 show ?thesis
      by (cases x) (auto simp: iteration_def Let_def split: if_splits)
  qed
qed

lemma iteration_sum:
  assumes "iteration cfg e c = (c1, out, None)"
    and "scanned c = skipped_not_managed c + skipped_protected c + associated c
           + would_release c + released c + per_eip_errors c"
  shows "scanned c1 = skipped_not_managed c1 + skipped_protected c1 + associated c1
           + would_release c1 + released c1 + per_eip_errors c1"
  using iteration_buckets [OF assms(1)] assms(2)
  by (elim disjE) simp_all

lemma loop_sum:
  "loop cfg es c = (c1, out, None) \<Longrightarrow>
   scanned c = skipped_not_managed c + skipped_protected c + associated c
     + would_release c + released c + per_eip_errors c \<Longrightarrow>
   scanned c1 = skipped_not_managed c1 + skipped_protected c1 + associated c1
     + would_release c1 + released c1 + per_eip_errors c1"
proof (induction es arbitrary: c c1 out)
  case Nil
  then show ?case by simp
next
  case (Cons e es)
  obtain ci oi ri where it: "iteration cfg e c = (ci, oi, ri)"
    by (cases "iteration cfg e c") auto
  show ?case
  proof (cases ri)
    case None
    obtain c2 o2 r2 where lp: "loop cfg es ci = (c2, o2, r2)"
      by (cases "loop cfg es ci") auto
    from Cons.prems(1) it None lp have eq: "c2 = c1" "r2 = None" by simp_all
    have "scanned ci = skipped_not_managed ci + skipped_protected ci + associated ci
            + would_release ci + released ci + per_eip_errors ci"
      using iteration_sum it None Cons.prems(2) by blast
    with Cons.IH lp eq show ?thesis by blast
  next
    case (Some x)
    with Cons.prems(1) it show ?thesis by simp
  qed
qed

section \<open>Evaluation of the examples\<close>

lemmas run_defs =
  cfg_live_def cfg_dry_def read_config_def getenv_def dict_get_def lower_def lower_char_def
  managed_tag_def protect_tag_def eip_untagged_def eip_protected_def eip_associated_def
  eip_idle_def eip_denied_def eip_throttled_def access_denied_def throttled_def
  iteration_def try_body_def get_tag_value_def zero_counters_def error_code_def
  fatal_codes_def Let_def

section \<open>The loop, step by step\<close>

lemma loop_step_continue:
  "iteration cfg e c = (c1, out, None) \<Longrightarrow>
   loop cfg (e # rest) c = (case loop cfg rest c1 of (c2, out2, r) \<Rightarrow> (c2, out @ out2, r))"
  by simp

lemma loop_step_abort:
  "iteration cfg e c = (c1, out, Some x) \<Longrightarrow> loop cfg (e # rest) c = (c1, out, Some x)"
  by simp

lemma try_body_no_summary:
  "try_body cfg e c = (c1, out, r) \<Longrightarrow> \<not> list_ex is_summary out"
  by (auto simp: try_body_def get_tag_value_or_empty Let_def split: if_splits option.splits)

lemma iteration_no_summary:
  assumes "iteration cfg e c = (c1, out, r)"
  shows "\<not> list_ex is_summary out"
proof -
  obtain c0 o0 r0 where tb: "try_body cfg e (c\<lparr>scanned := scanned c + 1\<rparr>) = (c0, o0, r0)"
    by (cases "try_body cfg e (c\<lparr>scanned := scanned c + 1\<rparr>)") auto
  have o0: "\<not> list_ex is_summary o0" using try_body_no_summary [OF tb] .
  show ?thesis
  proof (cases r0)
    case None
    with tb assms o0 show ?thesis by (simp add: iteration_def)
  next
    case (Some x)
    with tb assms o0 show ?thesis
      by (cases x) (auto simp: iteration_def Let_def split: if_splits)
  qed
qed

lemma loop_no_summary:
  "loop cfg es c = (c1, out, r) \<Longrightarrow> \<not> list_ex is_summary out"
proof (induction es arbitrary: c c1 out r)
  case Nil
  then show ?case by simp
next
  case (Cons e es)
  obtain ci oi ri where it: "iteration cfg e c = (ci, oi, ri)"
    by (cases "iteration cfg e c") auto
  have oi: "\<not> list_ex is_summary oi" using iteration_no_summary [OF it] .
  show ?case
  proof (cases ri)
    case None
    obtain c2 o2 r2 where lp: "loop cfg es ci = (c2, o2, r2)"
      by (cases "loop cfg es ci") auto
    from Cons.prems it None lp have "out = oi @ o2" by simp
    moreover have "\<not> list_ex is_summary o2" using Cons.IH lp by blast
    ultimately show ?thesis using oi by simp
  next
    case (Some x)
    with Cons.prems it oi show ?thesis by simp
  qed
qed

lemma start_log_no_summary: "\<not> is_summary (start_log cfg context)"
  by (simp add: start_log_def)

lemma summary_log_is_summary: "is_summary (summary_log cfg c)"
  by (simp add: summary_log_def)

lemma try_body_per_eip_errors:
  "try_body cfg e c = (c1, out, r) \<Longrightarrow> per_eip_errors c1 = per_eip_errors c"
  using try_body_buckets [of cfg e c c1 out r] by auto

lemma scan_tags_absent: "\<forall>t \<in> set ts. Key t \<noteq> Some key \<Longrightarrow> scan_tags ts key = None"
  by (induction ts) auto

lemma get_tag_value_absent:
  "\<forall>t \<in> set ts. Key t \<noteq> Some key \<Longrightarrow> get_tag_value (Some ts) key = None"
  using scan_tags_absent [of ts key] by (cases ts) (auto simp: get_tag_value_def)

lemma iteration_no_exception:
  "try_body cfg e (c\<lparr>scanned := scanned c + 1\<rparr>) = (c1, out, None) \<Longrightarrow>
   iteration cfg e c = (c1, out, None)"
  by (simp add: iteration_def)

lemma iteration_effects_extend:
  assumes "try_body cfg e (c\<lparr>scanned := scanned c + 1\<rparr>) = (c1, out, r)"
  shows "\<exists>more. fst (snd (iteration cfg e c)) = out @ more"
proof (cases r)
  case None
  with assms show ?thesis by (simp add: iteration_def)
next
  case (Some x)
  with assms show ?thesis by (cases x) (simp_all add: iteration_def Let_def)
qed

section \<open>The claims\<close>

text \<open>
  Claim C1. In a run of the loop that no exception leaves, started with all counters
  at zero, \<open>scanned\<close> is the sum of the six other counters; and each iteration that
  no exception leaves adds one to \<open>scanned\<close> and one to exactly one of the six
  other counters, leaving the rest as they were.
\<close>

theorem counter_sum_invariant:
  "(loop cfg resources zero_counters = (c, out, None) \<longrightarrow>
      scanned c = skipped_not_managed c + skipped_protected c + associated c
        + would_release c + released c + per_eip_errors c)
   \<and> (iteration cfg e c0 = (c1, out1, None) \<longrightarrow>
        c1 = c0\<lparr>scanned := scanned c0 + 1, skipped_not_managed := skipped_not_managed c0 + 1\<rparr>
        \<or> c1 = c0\<lparr>scanned := scanned c0 + 1, skipped_protected := skipped_protected c0 + 1\<rparr>
        \<or> c1 = c0\<lparr>scanned := scanned c0 + 1, associated := associated c0 + 1\<rparr>
        \<or> c1 = c0\<lparr>scanned := scanned c0 + 1, would_release := would_release c0 + 1\<rparr>
        \<or> c1 = c0\<lparr>scanned := scanned c0 + 1, released := released c0 + 1\<rparr>
        \<or> c1 = c0\<lparr>scanned := scanned c0 + 1, per_eip_errors := per_eip_errors c0 + 1\<rparr>)"
proof (intro conjI impI)
  assume run: "loop cfg resources zero_counters = (c, out, None)"
  have "scanned zero_counters = skipped_not_managed zero_counters + skipped_protected zero_counters
          + associated zero_counters + would_release zero_counters + released zero_counters
          + per_eip_errors zero_counters"
    by (simp add: zero_counters_def)
  with run show "scanned c = skipped_not_managed c + skipped_protected c + associated c
        + would_release c + released c + per_eip_errors c"
    by (rule loop_sum)
next
  assume "iteration cfg e c0 = (c1, out1, None)"
  then show "c1 = c0\<lparr>scanned := scanned c0 + 1, skipped_not_managed := skipped_not_managed c0 + 1\<rparr>
        \<or> c1 = c0\<lparr>scanned := scanned c0 + 1, skipped_protected := skipped_protected c0 + 1\<rparr>
        \<or> c1 = c0\<lparr>scanned := scanned c0 + 1, associated := associated c0 + 1\<rparr>
        \<or> c1 = c0\<lparr>scanned := scanned c0 + 1, would_release := would_release c0 + 1\<rparr>
        \<or> c1 = c0\<lparr>scanned := scanned c0 + 1, released := released c0 + 1\<rparr>
        \<or> c1 = c0\<lparr>scanned := scanned c0 + 1, per_eip_errors := per_eip_errors c0 + 1\<rparr>"
    by (rule iteration_buckets)
qed

theorem counter_sum_invariant_witness:
  "snd (snd (loop cfg_live [eip_untagged, eip_throttled, eip_protected, eip_associated, eip_idle]
       zero_counters)) = None
   \<and> fst (loop cfg_live [eip_untagged, eip_throttled, eip_protected, eip_associated, eip_idle]
       zero_counters)
     = \<lparr> scanned = 5, skipped_not_managed = 1, skipped_protected = 1, associated = 1,
         would_release = 0, released = 1, per_eip_errors = 1 \<rparr>
   \<and> (5::int) = 1 + 1 + 1 + 0 + 1 + 1
   \<and> snd (snd (iteration cfg_live eip_idle zero_counters)) = None
   \<and> fst (iteration cfg_live eip_idle zero_counters) = zero_counters\<lparr>scanned := 1, released := 1\<rparr>"
proof -
  let ?rs = "[eip_untagged, eip_throttled, eip_protected, eip_associated, eip_idle]"
  let ?c = "\<lparr> scanned = 5, skipped_not_managed = 1, skipped_protected = 1, associated = 1,
         would_release = 0, released = 1, per_eip_errors = (1::int) \<rparr>"
  have r: "snd (snd (loop cfg_live ?rs zero_counters)) = None"
    by (simp add: run_defs)
  have f: "fst (loop cfg_live ?rs zero_counters) = ?c"
    by (simp add: run_defs)
  from r f have run: "loop cfg_live ?rs zero_counters
      = (?c, fst (snd (loop cfg_live ?rs zero_counters)), None)"
    by (metis prod.collapse)
  have i1: "snd (snd (iteration cfg_live eip_idle zero_counters)) = None"
    by (simp add: run_defs)
  have i2: "fst (iteration cfg_live eip_idle zero_counters) = zero_counters\<lparr>scanned := 1, released := 1\<rparr>"
    by (simp add: run_defs)
  from i1 i2 have it: "iteration cfg_live eip_idle zero_counters
      = (zero_counters\<lparr>scanned := 1, released := 1\<rparr>,
         fst (snd (iteration cfg_live eip_idle zero_counters)), None)"
    by (metis prod.collapse)
  from counter_sum_invariant [of cfg_live ?rs ?c "fst (snd (loop cfg_live ?rs zero_counters))"
      eip_idle zero_counters "zero_counters\<lparr>scanned := 1, released := 1\<rparr>"
      "fst (snd (iteration cfg_live eip_idle zero_counters))"] run it
  have "scanned ?c = skipped_not_managed ?c + skipped_protected ?c + associated ?c
        + would_release ?c + released ?c + per_eip_errors ?c" by blast
  then have "(5::int) = 1 + 1 + 1 + 0 + 1 + 1" by simp
  with r f i1 i2 show ?thesis by blast
qed

text \<open>
  Claim C6. A resource whose tag at the managed key is the managed value and whose
  tag at the protect key is the protect value is counted as skipped-protected,
  whatever its instance id, the mode and the behaviour of \<^verbatim>\<open>release()\<close> are: one
  log line is written, \<^verbatim>\<open>release()\<close> is not called and no exception leaves the
  iteration.
\<close>

theorem protected_is_skipped:
  assumes "get_tag_value (tags e) (MANAGED_TAG_KEY cfg) = Some (MANAGED_TAG_VALUE cfg)"
    and "get_tag_value (tags e) (PROTECT_TAG_KEY cfg) = Some (PROTECT_TAG_VALUE cfg)"
  shows "iteration cfg e c =
     (c\<lparr>scanned := scanned c + 1, skipped_protected := skipped_protected c + 1\<rparr>,
      [Log ''INFO'' ''Skipping protected Elastic IP''
         [(''allocation_id'', PyStr (allocation_id e)), (''action'', PyStr ''skip''),
          (''reason'', PyStr ''protected''), (''dry_run'', PyBool (dry_run cfg))]],
      None)
   \<and> release_calls (fst (snd (iteration cfg e c))) = []"
  using assms by (simp add: iteration_def try_body_protected)

theorem protected_is_skipped_witness:
  "get_tag_value (tags eip_protected) (MANAGED_TAG_KEY cfg_live) = Some (MANAGED_TAG_VALUE cfg_live)
   \<and> get_tag_value (tags eip_protected) (PROTECT_TAG_KEY cfg_live) = Some (PROTECT_TAG_VALUE cfg_live)
   \<and> instance_id eip_protected = None \<and> \<not> dry_run cfg_live
   \<and> fst (iteration cfg_live eip_protected zero_counters)
       = zero_counters\<lparr>scanned := 1, skipped_protected := 1\<rparr>
   \<and> release_calls (fst (snd (iteration cfg_live eip_protected zero_counters))) = []"
proof -
  have m: "get_tag_value (tags eip_protected) (MANAGED_TAG_KEY cfg_live) = Some (MANAGED_TAG_VALUE cfg_live)"
    by (simp add: run_defs)
  have p: "get_tag_value (tags eip_protected) (PROTECT_TAG_KEY cfg_live) = Some (PROTECT_TAG_VALUE cfg_live)"
    by (simp add: run_defs)
  have u: "instance_id eip_protected = None \<and> \<not> dry_run cfg_live"
    by (simp add: run_defs)
  from protected_is_skipped [OF m p, of zero_counters] m p u show ?thesis
    by (simp add: zero_counters_def)
qed

text \<open>
  Claim C7. A resource whose tag collection is \<^verbatim>\<open>None\<close> or empty, or has no tag
  with the managed key, or whose tag value at the managed key is not the managed
  value, is counted as skipped-not-managed whatever its protection tag, its instance
  id and the mode are; the iteration has no effect and no exception leaves it.
\<close>

theorem not_managed_is_skipped:
  assumes "tags e = None \<or> tags e = Some []
     \<or> (\<exists>ts. tags e = Some ts \<and> (\<forall>t \<in> set ts. Key t \<noteq> Some (MANAGED_TAG_KEY cfg)))
     \<or> get_tag_value (tags e) (MANAGED_TAG_KEY cfg) \<noteq> Some (MANAGED_TAG_VALUE cfg)"
  shows "iteration cfg e c
     = (c\<lparr>scanned := scanned c + 1, skipped_not_managed := skipped_not_managed c + 1\<rparr>, [], None)"
proof -
  have "get_tag_value (tags e) (MANAGED_TAG_KEY cfg) \<noteq> Some (MANAGED_TAG_VALUE cfg)"
    using assms get_tag_value_absent [of _ "MANAGED_TAG_KEY cfg"]
    by (auto simp: get_tag_value_def)
  then show ?thesis
    by (simp add: iteration_def try_body_not_managed)
qed

theorem not_managed_is_skipped_witness:
  "tags eip_untagged = None
   \<and> iteration cfg_live eip_untagged zero_counters
       = (zero_counters\<lparr>scanned := scanned zero_counters + 1,
            skipped_not_managed := skipped_not_managed zero_counters + 1\<rparr>, [], None)"
proof -
  have h: "tags eip_untagged = None" by (simp add: eip_untagged_def)
  then show ?thesis
    using not_managed_is_skipped [of eip_untagged cfg_live zero_counters] by blast
qed

text \<open>
  Claim C8. For a managed, unprotected resource the iteration counts the resource as
  associated (adding one to \<open>associated\<close> and, apart from \<open>scanned\<close>, to nothing
  else, with no effect at all) if and only if its instance id is present, which is
  the test \<^verbatim>\<open>elastic_ip.instance_id is not None\<close> of the handler.
\<close>

theorem associated_iff_instance_id:
  assumes "get_tag_value (tags e) (MANAGED_TAG_KEY cfg) = Some (MANAGED_TAG_VALUE cfg)"
    and "get_tag_value (tags e) (PROTECT_TAG_KEY cfg) \<noteq> Some (PROTECT_TAG_VALUE cfg)"
  shows "iteration cfg e c
       = (c\<lparr>scanned := scanned c + 1, associated := associated c + 1\<rparr>, [], None)
     \<longleftrightarrow> instance_id e \<noteq> None"
proof
  assume eq: "iteration cfg e c
       = (c\<lparr>scanned := scanned c + 1, associated := associated c + 1\<rparr>, [], None)"
  show "instance_id e \<noteq> None"
  proof
    assume none: "instance_id e = None"
    show False
    proof (cases "dry_run cfg")
      case True
      from try_body_would_release [OF assms none True, of "c\<lparr>scanned := scanned c + 1\<rparr>"] eq
      show False by (simp add: iteration_def)
    next
      case False
      have "fst (snd (iteration cfg e c)) \<noteq> []"
        using iteration_effects_extend [OF try_body_release [OF assms none False], where c = c]
        by auto
      with eq show False by simp
    qed
  qed
next
  assume "instance_id e \<noteq> None"
  with assms show "iteration cfg e c
       = (c\<lparr>scanned := scanned c + 1, associated := associated c + 1\<rparr>, [], None)"
    by (simp add: iteration_def try_body_associated)
qed

theorem associated_iff_instance_id_witness:
  "get_tag_value (tags eip_associated) (MANAGED_TAG_KEY cfg_live) = Some (MANAGED_TAG_VALUE cfg_live)
   \<and> get_tag_value (tags eip_associated) (PROTECT_TAG_KEY cfg_live) \<noteq> Some (PROTECT_TAG_VALUE cfg_live)
   \<and> instance_id eip_associated \<noteq> None
   \<and> iteration cfg_live eip_associated zero_counters
       = (zero_counters\<lparr>scanned := scanned zero_counters + 1,
            associated := associated zero_counters + 1\<rparr>, [], None)"
proof -
  have m: "get_tag_value (tags eip_associated) (MANAGED_TAG_KEY cfg_live) = Some (MANAGED_TAG_VALUE cfg_live)"
    by (simp add: run_defs)
  have p: "get_tag_value (tags eip_associated) (PROTECT_TAG_KEY cfg_live) \<noteq> Some (PROTECT_TAG_VALUE cfg_live)"
    by (simp add: run_defs)
  have a: "instance_id eip_associated \<noteq> None"
    by (simp add: run_defs)
  from associated_iff_instance_id [OF m p, of zero_counters] m p a show ?thesis
    by blast
qed

text \<open>
  Claim C2. For a managed, unprotected resource with no instance id: in dry-run mode
  the iteration counts it as would-release, writes one log line and does not call
  \<^verbatim>\<open>release()\<close>; otherwise \<^verbatim>\<open>release()\<close> is called exactly once, on that
  resource, and when the call returns the resource is counted as released.
\<close>

theorem release_or_would_release:
  assumes "get_tag_value (tags e) (MANAGED_TAG_KEY cfg) = Some (MANAGED_TAG_VALUE cfg)"
    and "get_tag_value (tags e) (PROTECT_TAG_KEY cfg) \<noteq> Some (PROTECT_TAG_VALUE cfg)"
    and "instance_id e = None"
  shows "(dry_run cfg \<longrightarrow>
            iteration cfg e c =
              (c\<lparr>scanned := scanned c + 1, would_release := would_release c + 1\<rparr>,
               [Log ''INFO'' ''Elastic IP would be released (dry-run)''
                  [(''allocation_id'', PyStr (allocation_id e)), (''action'', PyStr ''release''),
                   (''dry_run'', PyBool True)]],
               None)
            \<and> release_calls (fst (snd (iteration cfg e c))) = [])
       \<and> (\<not> dry_run cfg \<longrightarrow>
            release_calls (fst (snd (iteration cfg e c))) = [allocation_id e]
            \<and> (release e = None \<longrightarrow>
                 iteration cfg e c =
                   (c\<lparr>scanned := scanned c + 1, released := released c + 1\<rparr>,
                    [Log ''INFO'' ''Releasing unassociated Elastic IP''
                       [(''allocation_id'', PyStr (allocation_id e)), (''action'', PyStr ''release''),
                        (''dry_run'', PyBool False)],
                     Release (allocation_id e)],
                    None)))"
proof (intro conjI impI)
  assume dry: "dry_run cfg"
  from try_body_would_release [OF assms dry, of "c\<lparr>scanned := scanned c + 1\<rparr>"]
  show it: "iteration cfg e c =
              (c\<lparr>scanned := scanned c + 1, would_release := would_release c + 1\<rparr>,
               [Log ''INFO'' ''Elastic IP would be released (dry-run)''
                  [(''allocation_id'', PyStr (allocation_id e)), (''action'', PyStr ''release''),
                   (''dry_run'', PyBool True)]],
               None)"
    by (simp add: iteration_def)
  then show "release_calls (fst (snd (iteration cfg e c))) = []" by simp
next
  assume live: "\<not> dry_run cfg"
  note tb = try_body_release [OF assms live, of "c\<lparr>scanned := scanned c + 1\<rparr>"]
  show "release_calls (fst (snd (iteration cfg e c))) = [allocation_id e]"
  proof (cases "release e")
    case None
    with tb show ?thesis by (simp add: iteration_def)
  next
    case (Some x)
    with tb show ?thesis by (cases x) (simp_all add: iteration_def Let_def)
  qed
next
  assume live: "\<not> dry_run cfg" and ok: "release e = None"
  from try_body_release [OF assms live, of "c\<lparr>scanned := scanned c + 1\<rparr>"] ok
  show "iteration cfg e c =
                   (c\<lparr>scanned := scanned c + 1, released := released c + 1\<rparr>,
                    [Log ''INFO'' ''Releasing unassociated Elastic IP''
                       [(''allocation_id'', PyStr (allocation_id e)), (''action'', PyStr ''release''),
                        (''dry_run'', PyBool False)],
                     Release (allocation_id e)],
                    None)"
    by (simp add: iteration_def)
qed

theorem release_or_would_release_witness:
  "get_tag_value (tags eip_idle) (MANAGED_TAG_KEY cfg_dry) = Some (MANAGED_TAG_VALUE cfg_dry)
   \<and> get_tag_value (tags eip_idle) (PROTECT_TAG_KEY cfg_dry) \<noteq> Some (PROTECT_TAG_VALUE cfg_dry)
   \<and> get_tag_value (tags eip_idle) (MANAGED_TAG_KEY cfg_live) = Some (MANAGED_TAG_VALUE cfg_live)
   \<and> get_tag_value (tags eip_idle) (PROTECT_TAG_KEY cfg_live) \<noteq> Some (PROTECT_TAG_VALUE cfg_live)
   \<and> instance_id eip_idle = None \<and> release eip_idle = None
   \<and> dry_run cfg_dry \<and> \<not> dry_run cfg_live
   \<and> fst (iteration cfg_dry eip_idle zero_counters)
       = zero_counters\<lparr>scanned := 1, would_release := 1\<rparr>
   \<and> release_calls (fst (snd (iteration cfg_dry eip_idle zero_counters))) = []
   \<and> fst (iteration cfg_live eip_idle zero_counters)
       = zero_counters\<lparr>scanned := 1, released := 1\<rparr>
   \<and> release_calls (fst (snd (iteration cfg_live eip_idle zero_counters))) = [''eipalloc-4'']"
proof -
  have md: "get_tag_value (tags eip_idle) (MANAGED_TAG_KEY cfg_dry) = Some (MANAGED_TAG_VALUE cfg_dry)"
    by (simp add: run_defs)
  have pd: "get_tag_value (tags eip_idle) (PROTECT_TAG_KEY cfg_dry) \<noteq> Some (PROTECT_TAG_VALUE cfg_dry)"
    by (simp add: run_defs)
  have ml: "get_tag_value (tags eip_idle) (MANAGED_TAG_KEY cfg_live) = Some (MANAGED_TAG_VALUE cfg_live)"
    by (simp add: run_defs)
  have pl: "get_tag_value (tags eip_idle) (PROTECT_TAG_KEY cfg_live) \<noteq> Some (PROTECT_TAG_VALUE cfg_live)"
    by (simp add: run_defs)
  have u: "instance_id eip_idle = None" by (simp add: eip_idle_def)
  have ok: "release eip_idle = None" by (simp add: eip_idle_def)
  have a: "allocation_id eip_idle = ''eipalloc-4''" by (simp add: eip_idle_def)
  have d: "dry_run cfg_dry" by (simp add: run_defs)
  have l: "\<not> dry_run cfg_live" by (simp add: run_defs)
  from release_or_would_release [OF md pd u, of zero_counters] d
  have 1: "fst (iteration cfg_dry eip_idle zero_counters)
       = zero_counters\<lparr>scanned := 1, would_release := 1\<rparr>
     \<and> release_calls (fst (snd (iteration cfg_dry eip_idle zero_counters))) = []"
    by (simp add: zero_counters_def)
  from release_or_would_release [OF ml pl u, of zero_counters] l ok a
  have 2: "fst (iteration cfg_live eip_idle zero_counters)
       = zero_counters\<lparr>scanned := 1, released := 1\<rparr>
     \<and> release_calls (fst (snd (iteration cfg_live eip_idle zero_counters))) = [''eipalloc-4'']"
    by (simp add: zero_counters_def)
  from md pd ml pl u ok d l 1 2 show ?thesis by blast
qed

text \<open>
  Claim C3. When an exception \<open>x\<close> leaves the \<^verbatim>\<open>try\<close> block of an iteration,
  it leaves the iteration (and with it the loop, the remaining resources not being
  looked at) if and only if \<open>x\<close> is a \<^verbatim>\<open>ClientError\<close> whose code is one of the
  seven codes of lines 191 to 199, or \<open>x\<close> is not a \<^verbatim>\<open>ClientError\<close>. Any other
  \<^verbatim>\<open>ClientError\<close> is logged and counted in \<open>per_eip_errors\<close>, and the loop goes
  on with the next resource.
\<close>

theorem fatal_iff_systemic_or_unrecognised:
  assumes "try_body cfg e (c\<lparr>scanned := scanned c + 1\<rparr>) = (c1, out, Some x)"
  shows "(snd (snd (iteration cfg e c)) \<noteq> None \<longleftrightarrow>
            (\<exists>r msg. x = ClientError r msg \<and> error_code r \<in> set fatal_codes)
            \<or> (\<forall>r msg. x \<noteq> ClientError r msg))
       \<and> (snd (snd (iteration cfg e c)) \<noteq> None \<longrightarrow>
            snd (snd (iteration cfg e c)) = Some x
            \<and> loop cfg (e # rest) c = iteration cfg e c)
       \<and> (\<forall>r msg. x = ClientError r msg \<and> error_code r \<notin> set fatal_codes \<longrightarrow>
            iteration cfg e c =
              (c1\<lparr>per_eip_errors := per_eip_errors c1 + 1\<rparr>,
               out @ [Log ''ERROR'' ''AWS ClientError while processing Elastic IP''
                        [(''allocation_id'', PyStr (allocation_id e)),
                         (''error_code'', PyStr (error_code r)),
                         (''error_message'', PyStr msg)]],
               None)
            \<and> loop cfg (e # rest) c =
                (case loop cfg rest (c1\<lparr>per_eip_errors := per_eip_errors c1 + 1\<rparr>) of
                   (c2, out2, r2) \<Rightarrow>
                     (c2,
                      (out @ [Log ''ERROR'' ''AWS ClientError while processing Elastic IP''
                                [(''allocation_id'', PyStr (allocation_id e)),
                                 (''error_code'', PyStr (error_code r)),
                                 (''error_message'', PyStr msg)]]) @ out2,
                      r2)))"
proof (cases x)
  case (ClientError r msg)
  show ?thesis
  proof (cases "error_code r \<in> set fatal_codes")
    case True
    with assms ClientError have it: "iteration cfg e c =
        (c1\<lparr>per_eip_errors := per_eip_errors c1 + 1\<rparr>,
         out @ [Log ''ERROR'' ''AWS ClientError while processing Elastic IP''
                  [(''allocation_id'', PyStr (allocation_id e)),
                   (''error_code'', PyStr (error_code r)),
                   (''error_message'', PyStr msg)]],
         Some x)"
      by (simp add: iteration_def Let_def)
    have "loop cfg (e # rest) c = iteration cfg e c"
      using loop_step_abort [OF it] it by simp
    with it ClientError True show ?thesis by simp
  next
    case False
    with assms ClientError have it: "iteration cfg e c =
        (c1\<lparr>per_eip_errors := per_eip_errors c1 + 1\<rparr>,
         out @ [Log ''ERROR'' ''AWS ClientError while processing Elastic IP''
                  [(''allocation_id'', PyStr (allocation_id e)),
                   (''error_code'', PyStr (error_code r)),
                   (''error_message'', PyStr msg)]],
         None)"
      by (simp add: iteration_def Let_def)
    from loop_step_continue [OF it, of rest] it ClientError False show ?thesis by simp
  qed
next
  case (OtherException ty msg)
  with assms have it: "iteration cfg e c =
      (c1,
       out @ [Log ''ERROR'' ''Unexpected error while processing Elastic IP''
                [(''allocation_id'', PyStr (allocation_id e)),
                 (''error_type'', PyStr ty),
                 (''error_message'', PyStr msg)]],
       Some x)"
    by (simp add: iteration_def)
  have "loop cfg (e # rest) c = iteration cfg e c"
    using loop_step_abort [OF it] it by simp
  with it OtherException show ?thesis by simp
next
  case (BaseOnly n)
  with assms have it: "iteration cfg e c = (c1, out, Some x)"
    by (simp add: iteration_def)
  have "loop cfg (e # rest) c = iteration cfg e c"
    using loop_step_abort [OF it] it by simp
  with it BaseOnly show ?thesis by simp
qed

theorem fatal_iff_systemic_or_unrecognised_witness:
  "try_body cfg_live eip_throttled (zero_counters\<lparr>scanned := scanned zero_counters + 1\<rparr>)
     = (zero_counters\<lparr>scanned := 1\<rparr>,
        [Log ''INFO'' ''Releasing unassociated Elastic IP''
           [(''allocation_id'', PyStr ''eipalloc-6''), (''action'', PyStr ''release''),
            (''dry_run'', PyBool False)],
         Release ''eipalloc-6''],
        Some throttled)
   \<and> ''RequestLimitExceeded'' \<notin> set fatal_codes
   \<and> snd (snd (iteration cfg_live eip_throttled zero_counters)) = None
   \<and> fst (iteration cfg_live eip_throttled zero_counters)
       = zero_counters\<lparr>scanned := 1, per_eip_errors := 1\<rparr>
   \<and> try_body cfg_live eip_denied (zero_counters\<lparr>scanned := scanned zero_counters + 1\<rparr>)
     = (zero_counters\<lparr>scanned := 1\<rparr>,
        [Log ''INFO'' ''Releasing unassociated Elastic IP''
           [(''allocation_id'', PyStr ''eipalloc-5''), (''action'', PyStr ''release''),
            (''dry_run'', PyBool False)],
         Release ''eipalloc-5''],
        Some access_denied)
   \<and> ''AccessDenied'' \<in> set fatal_codes
   \<and> snd (snd (iteration cfg_live eip_denied zero_counters)) = Some access_denied
   \<and> loop cfg_live [eip_denied, eip_idle] zero_counters = iteration cfg_live eip_denied zero_counters"
proof -
  let ?rt = "\<lparr> Error = Some \<lparr> Code = Some ''RequestLimitExceeded'' \<rparr> \<rparr>"
  let ?rd = "\<lparr> Error = Some \<lparr> Code = Some ''AccessDenied'' \<rparr> \<rparr>"
  have tt: "try_body cfg_live eip_throttled (zero_counters\<lparr>scanned := scanned zero_counters + 1\<rparr>)
     = (zero_counters\<lparr>scanned := 1\<rparr>,
        [Log ''INFO'' ''Releasing unassociated Elastic IP''
           [(''allocation_id'', PyStr ''eipalloc-6''), (''action'', PyStr ''release''),
            (''dry_run'', PyBool False)],
         Release ''eipalloc-6''],
        Some throttled)"
    by (simp add: run_defs)
  have td: "try_body cfg_live eip_denied (zero_counters\<lparr>scanned := scanned zero_counters + 1\<rparr>)
     = (zero_counters\<lparr>scanned := 1\<rparr>,
        [Log ''INFO'' ''Releasing unassociated Elastic IP''
           [(''allocation_id'', PyStr ''eipalloc-5''), (''action'', PyStr ''release''),
            (''dry_run'', PyBool False)],
         Release ''eipalloc-5''],
        Some access_denied)"
    by (simp add: run_defs)
  have ct: "throttled = ClientError ?rt ''slow down''" by (simp add: throttled_def)
  have cd: "access_denied = ClientError ?rd ''access denied''" by (simp add: access_denied_def)
  have et: "error_code ?rt = ''RequestLimitExceeded''" by (simp add: error_code_def)
  have ed: "error_code ?rd = ''AccessDenied''" by (simp add: error_code_def)
  have nt: "''RequestLimitExceeded'' \<notin> set fatal_codes" by (simp add: fatal_codes_def)
  have nd: "''AccessDenied'' \<in> set fatal_codes" by (simp add: fatal_codes_def)
  have nt': "error_code ?rt \<notin> set fatal_codes" using et nt by simp
  have nd': "error_code ?rd \<in> set fatal_codes" using ed nd by simp
  note recov = fatal_iff_systemic_or_unrecognised [OF tt, of "[]", THEN conjunct2, THEN conjunct2,
      rule_format, OF conjI [OF ct nt'], THEN conjunct1]
  from recov have 2: "snd (snd (iteration cfg_live eip_throttled zero_counters)) = None
    \<and> fst (iteration cfg_live eip_throttled zero_counters)
       = zero_counters\<lparr>scanned := 1, per_eip_errors := 1\<rparr>"
    by (simp add: zero_counters_def)
  have ex: "(\<exists>r msg. access_denied = ClientError r msg \<and> error_code r \<in> set fatal_codes)
      \<or> (\<forall>r msg. access_denied \<noteq> ClientError r msg)"
    using cd nd' by blast
  note fat = fatal_iff_systemic_or_unrecognised [OF td, of "[eip_idle]", THEN conjunct1, THEN iffD2, OF ex]
  note propag = fatal_iff_systemic_or_unrecognised [OF td, of "[eip_idle]", THEN conjunct2, THEN conjunct1,
      rule_format, OF fat]
  from propag have 3: "snd (snd (iteration cfg_live eip_denied zero_counters)) = Some access_denied
    \<and> loop cfg_live [eip_denied, eip_idle] zero_counters = iteration cfg_live eip_denied zero_counters"
    by simp
  from tt td nt nd 2 3 show ?thesis by blast
qed

text \<open>
  Claim C4 as stated fails: a run of three resources whose second one fails with
  \<^verbatim>\<open>AccessDenied\<close> ends with that exception and has written neither the summary
  line nor the metrics record.
\<close>

theorem summary_after_fatal_counterexample:
  "snd (lambda_handler Map.empty None Map.empty [eip_untagged, eip_denied, eip_idle])
     = Inl access_denied
   \<and> \<not> list_ex is_summary
         (fst (lambda_handler Map.empty None Map.empty [eip_untagged, eip_denied, eip_idle]))"
  by (simp add: run_defs lambda_handler_def start_log_def)

text \<open>
  Claim C4, amended. An exception that leaves an iteration leaves the loop at once,
  with the counters and effects of that iteration, and it is the exception that
  leaves the handler; a run that ends with an exception has written neither the
  summary line nor the metrics record, and a run that returns has written the
  summary line.
\<close>

theorem fatal_abort_skips_summary:
  "(iteration cfg e c = (c1, out, Some x) \<longrightarrow> loop cfg (e # rest) c = (c1, out, Some x))
   \<and> (snd (lambda_handler event context env resources) = Inl x \<longrightarrow>
        snd (snd (loop (read_config event env) resources zero_counters)) = Some x
        \<and> \<not> list_ex is_summary (fst (lambda_handler event context env resources)))
   \<and> (snd (lambda_handler event context env resources) = Inr v \<longrightarrow>
        snd (snd (loop (read_config event env) resources zero_counters)) = None
        \<and> list_ex is_summary (fst (lambda_handler event context env resources)))"
proof -
  obtain c2 o2 r2 where lp: "loop (read_config event env) resources zero_counters = (c2, o2, r2)"
    by (cases "loop (read_config event env) resources zero_counters") auto
  have o2: "\<not> list_ex is_summary o2" using loop_no_summary [OF lp] .
  show ?thesis
  proof (cases r2)
    case None
    with lp o2 show ?thesis
      by (simp add: lambda_handler_def Let_def summary_log_is_summary)
  next
    case (Some y)
    with lp o2 show ?thesis
      by (simp add: lambda_handler_def Let_def start_log_no_summary)
  qed
qed

theorem fatal_abort_skips_summary_witness:
  "iteration cfg_live eip_denied zero_counters
     = (zero_counters\<lparr>scanned := 1, per_eip_errors := 1\<rparr>,
        [Log ''INFO'' ''Releasing unassociated Elastic IP''
           [(''allocation_id'', PyStr ''eipalloc-5''), (''action'', PyStr ''release''),
            (''dry_run'', PyBool False)],
         Release ''eipalloc-5'',
         Log ''ERROR'' ''AWS ClientError while processing Elastic IP''
           [(''allocation_id'', PyStr ''eipalloc-5''), (''error_code'', PyStr ''AccessDenied''),
            (''error_message'', PyStr ''access denied'')]],
        Some access_denied)
   \<and> fst (loop cfg_live [eip_denied, eip_idle] zero_counters)
       = zero_counters\<lparr>scanned := 1, per_eip_errors := 1\<rparr>
   \<and> snd (lambda_handler Map.empty None Map.empty [eip_untagged, eip_denied, eip_idle])
       = Inl access_denied
   \<and> \<not> list_ex is_summary
         (fst (lambda_handler Map.empty None Map.empty [eip_untagged, eip_denied, eip_idle]))
   \<and> snd (lambda_handler Map.empty None Map.empty [eip_untagged, eip_idle])
       = Inr (200, ''Processed elastic IPs.'')
   \<and> list_ex is_summary (fst (lambda_handler Map.empty None Map.empty [eip_untagged, eip_idle]))"
proof -
  have it: "iteration cfg_live eip_denied zero_counters
     = (zero_counters\<lparr>scanned := 1, per_eip_errors := 1\<rparr>,
        [Log ''INFO'' ''Releasing unassociated Elastic IP''
           [(''allocation_id'', PyStr ''eipalloc-5''), (''action'', PyStr ''release''),
            (''dry_run'', PyBool False)],
         Release ''eipalloc-5'',
         Log ''ERROR'' ''AWS ClientError while processing Elastic IP''
           [(''allocation_id'', PyStr ''eipalloc-5''), (''error_code'', PyStr ''AccessDenied''),
            (''error_message'', PyStr ''access denied'')]],
        Some access_denied)"
    by (simp add: run_defs)
  have a: "snd (lambda_handler Map.empty None Map.empty [eip_untagged, eip_denied, eip_idle])
       = Inl access_denied"
    by (simp add: run_defs lambda_handler_def)
  have b: "snd (lambda_handler Map.empty None Map.empty [eip_untagged, eip_idle])
       = Inr (200, ''Processed elastic IPs.'')"
    by (simp add: run_defs lambda_handler_def)
  from fatal_abort_skips_summary [of cfg_live eip_denied zero_counters _ _ access_denied "[eip_idle]"] it
  have 1: "fst (loop cfg_live [eip_denied, eip_idle] zero_counters)
       = zero_counters\<lparr>scanned := 1, per_eip_errors := 1\<rparr>"
    by simp
  from fatal_abort_skips_summary [of _ _ _ _ _ access_denied _ Map.empty None Map.empty
      "[eip_untagged, eip_denied, eip_idle]"] a
  have 2: "\<not> list_ex is_summary
         (fst (lambda_handler Map.empty None Map.empty [eip_untagged, eip_denied, eip_idle]))"
    by blast
  from fatal_abort_skips_summary [of _ _ _ _ _ _ _ Map.empty None Map.empty
      "[eip_untagged, eip_idle]" "(200, ''Processed elastic IPs.'')"] b
  have 3: "list_ex is_summary (fst (lambda_handler Map.empty None Map.empty [eip_untagged, eip_idle]))"
    by blast
  from it a b 1 2 3 show ?thesis by blast
qed

text \<open>
  Claim C5 as stated fails: the iteration on a resource whose release fails with
  \<^verbatim>\<open>AccessDenied\<close> ends with that exception, and has added one to
  \<open>per_eip_errors\<close> (line 175 comes before the test of the code).
\<close>

theorem fatal_error_counted_counterexample:
  "snd (snd (iteration cfg_live eip_denied zero_counters)) = Some access_denied
   \<and> per_eip_errors zero_counters = 0
   \<and> per_eip_errors (fst (iteration cfg_live eip_denied zero_counters)) = 1"
  by (simp add: run_defs)

text \<open>
  Claim C5, amended. An iteration adds one to \<open>per_eip_errors\<close> exactly when the
  exception that leaves its \<^verbatim>\<open>try\<close> block is a \<^verbatim>\<open>ClientError\<close>, of a fatal
  code or not, and otherwise leaves the counter as it was; in an iteration that no
  exception leaves, it adds one exactly when a \<^verbatim>\<open>ClientError\<close> of a code that is
  not fatal occurred.
\<close>

theorem per_eip_errors_counts_client_errors:
  assumes "try_body cfg e (c\<lparr>scanned := scanned c + 1\<rparr>) = (c1, out, r)"
  shows "(per_eip_errors (fst (iteration cfg e c)) = per_eip_errors c + 1 \<longleftrightarrow>
            (\<exists>resp msg. r = Some (ClientError resp msg)))
       \<and> (per_eip_errors (fst (iteration cfg e c)) \<noteq> per_eip_errors c + 1 \<longrightarrow>
            per_eip_errors (fst (iteration cfg e c)) = per_eip_errors c)
       \<and> (snd (snd (iteration cfg e c)) = None \<longrightarrow>
            (per_eip_errors (fst (iteration cfg e c)) = per_eip_errors c + 1 \<longleftrightarrow>
               (\<exists>resp msg. r = Some (ClientError resp msg) \<and> error_code resp \<notin> set fatal_codes)))"
proof -
  have p: "per_eip_errors c1 = per_eip_errors c"
    using try_body_per_eip_errors [OF assms] by simp
  show ?thesis
  proof (cases r)
    case None
    with assms p show ?thesis by (simp add: iteration_def)
  next
    case (Some x)
    with assms p show ?thesis
      by (cases x) (simp_all add: iteration_def Let_def)
  qed
qed

theorem per_eip_errors_counts_client_errors_witness:
  "try_body cfg_live eip_denied (zero_counters\<lparr>scanned := scanned zero_counters + 1\<rparr>)
     = (zero_counters\<lparr>scanned := 1\<rparr>,
        [Log ''INFO'' ''Releasing unassociated Elastic IP''
           [(''allocation_id'', PyStr ''eipalloc-5''), (''action'', PyStr ''release''),
            (''dry_run'', PyBool False)],
         Release ''eipalloc-5''],
        Some access_denied)
   \<and> per_eip_errors (fst (iteration cfg_live eip_denied zero_counters))
       = per_eip_errors zero_counters + 1
   \<and> try_body cfg_live eip_idle (zero_counters\<lparr>scanned := scanned zero_counters + 1\<rparr>)
     = (zero_counters\<lparr>scanned := 1, released := 1\<rparr>,
        [Log ''INFO'' ''Releasing unassociated Elastic IP''
           [(''allocation_id'', PyStr ''eipalloc-4''), (''action'', PyStr ''release''),
            (''dry_run'', PyBool False)],
         Release ''eipalloc-4''],
        None)
   \<and> snd (snd (iteration cfg_live eip_idle zero_counters)) = None
   \<and> per_eip_errors (fst (iteration cfg_live eip_idle zero_counters)) = per_eip_errors zero_counters"
proof -
  have td: "try_body cfg_live eip_denied (zero_counters\<lparr>scanned := scanned zero_counters + 1\<rparr>)
     = (zero_counters\<lparr>scanned := 1\<rparr>,
        [Log ''INFO'' ''Releasing unassociated Elastic IP''
           [(''allocation_id'', PyStr ''eipalloc-5''), (''action'', PyStr ''release''),
            (''dry_run'', PyBool False)],
         Release ''eipalloc-5''],
        Some access_denied)"
    by (simp add: run_defs)
  have ti: "try_body cfg_live eip_idle (zero_counters\<lparr>scanned := scanned zero_counters + 1\<rparr>)
     = (zero_counters\<lparr>scanned := 1, released := 1\<rparr>,
        [Log ''INFO'' ''Releasing unassociated Elastic IP''
           [(''allocation_id'', PyStr ''eipalloc-4''), (''action'', PyStr ''release''),
            (''dry_run'', PyBool False)],
         Release ''eipalloc-4''],
        None)"
    by (simp add: run_defs)
  have ex: "\<exists>resp msg. Some access_denied = Some (ClientError resp msg)"
    by (simp add: access_denied_def)
  have 1: "per_eip_errors (fst (iteration cfg_live eip_denied zero_counters))
       = per_eip_errors zero_counters + 1"
    using per_eip_errors_counts_client_errors [OF td, THEN conjunct1, THEN iffD2, OF ex] .
  have nex: "\<not> (\<exists>resp msg. (None :: py_exception option) = Some (ClientError resp msg))"
    by simp
  have n1: "per_eip_errors (fst (iteration cfg_live eip_idle zero_counters))
       \<noteq> per_eip_errors zero_counters + 1"
    using per_eip_errors_counts_client_errors [OF ti, THEN conjunct1] nex by blast
  have 2: "per_eip_errors (fst (iteration cfg_live eip_idle zero_counters)) = per_eip_errors zero_counters"
    using per_eip_errors_counts_client_errors [OF ti, THEN conjunct2, THEN conjunct1, rule_format, OF n1] .
  have 3: "snd (snd (iteration cfg_live eip_idle zero_counters)) = None"
    by (simp add: iteration_def ti)
  from td ti 1 2 3 show ?thesis by blast
qed

text \<open>
  Claim C9 as stated fails: on a tag list with the key twice, the lookup returns the
  value of the first occurrence, not of the last.
\<close>

theorem tag_lookup_last_wins_counterexample:
  "get_tag_value
     (Some [\<lparr> Key = Some ''Owner'', Value = Some ''first'' \<rparr>,
            \<lparr> Key = Some ''Owner'', Value = Some ''last'' \<rparr>]) ''Owner''
     = Some ''first''
   \<and> get_tag_value
     (Some [\<lparr> Key = Some ''Owner'', Value = Some ''first'' \<rparr>,
            \<lparr> Key = Some ''Owner'', Value = Some ''last'' \<rparr>]) ''Owner''
     \<noteq> Value (last [\<lparr> Key = Some ''Owner'', Value = Some ''first'' \<rparr>,
                    \<lparr> Key = Some ''Owner'', Value = Some ''last'' \<rparr>])"
  by (simp add: get_tag_value_def)

text \<open>
  Claim C9, amended. The lookup returns the value of the first tag of the list whose
  key is the one looked up, whatever follows it.
\<close>

theorem tag_lookup_first_occurrence:
  assumes "\<forall>u \<in> set pre. Key u \<noteq> Some key" and "Key t = Some key"
  shows "get_tag_value (Some (pre @ t # post)) key = Value t"
  using scan_tags_first [OF assms, of post]
  by (cases pre) (simp_all add: get_tag_value_def)

theorem tag_lookup_first_occurrence_witness:
  "Key \<lparr> Key = Some ''Name'', Value = Some ''web'' \<rparr> \<noteq> Some ''Owner''
   \<and> Key \<lparr> Key = Some ''Owner'', Value = Some ''first'' \<rparr> = Some ''Owner''
   \<and> get_tag_value
       (Some ([\<lparr> Key = Some ''Name'', Value = Some ''web'' \<rparr>]
              @ \<lparr> Key = Some ''Owner'', Value = Some ''first'' \<rparr>
              # [\<lparr> Key = Some ''Owner'', Value = Some ''last'' \<rparr>])) ''Owner''
       = Some ''first''"
proof -
  have a: "\<forall>u \<in> set [\<lparr> Key = Some ''Name'', Value = Some ''web'' \<rparr>]. Key u \<noteq> Some ''Owner''"
    by simp
  have b: "Key \<lparr> Key = Some ''Owner'', Value = Some ''first'' \<rparr> = Some ''Owner''"
    by simp
  from tag_lookup_first_occurrence [OF a b, of "[\<lparr> Key = Some ''Owner'', Value = Some ''last'' \<rparr>]"] a b
  show ?thesis by simp
qed

text \<open>
  Claim C10. The dry-run flag is read from the payload's \<^verbatim>\<open>dry_run\<close> entry if
  there is one, else from the environment variable \<^verbatim>\<open>DRY_RUN\<close> if it is set,
  else it is false; the value, as a string, is compared with \<^verbatim>\<open>true\<close> without
  regard to case: the flag holds exactly for the sixteen spellings of that word, so
  for the payload value \<^verbatim>\<open>True\<close>, and for no other string, for neither
  \<^verbatim>\<open>False\<close> nor \<^verbatim>\<open>None\<close> and for no integer.
\<close>

theorem dry_run_resolution:
  "(event ''dry_run'' = Some v \<longrightarrow>
      dry_run (read_config event env) = (lower (py_str v) = ''true''))
   \<and> (event ''dry_run'' = None \<and> env ''DRY_RUN'' = Some s \<longrightarrow>
        dry_run (read_config event env) = (lower s = ''true''))
   \<and> (event ''dry_run'' = None \<and> env ''DRY_RUN'' = None \<longrightarrow>
        \<not> dry_run (read_config event env))
   \<and> (lower w = ''true'' \<longleftrightarrow>
        (\<exists>a b c d. w = [a, b, c, d] \<and> (a = CHR ''t'' \<or> a = CHR ''T'') \<and> (b = CHR ''r'' \<or> b = CHR ''R'')
           \<and> (c = CHR ''u'' \<or> c = CHR ''U'') \<and> (d = CHR ''e'' \<or> d = CHR ''E'')))
   \<and> (lower (py_str (PyBool b)) = ''true'' \<longleftrightarrow> b)
   \<and> lower (py_str PyNone) \<noteq> ''true''
   \<and> lower (py_str (PyInt i)) \<noteq> ''true''"
proof (intro conjI impI)
  assume "event ''dry_run'' = Some v"
  then show "dry_run (read_config event env) = (lower (py_str v) = ''true'')"
    by (simp add: read_config_def dict_get_def)
next
  assume "event ''dry_run'' = None \<and> env ''DRY_RUN'' = Some s"
  then show "dry_run (read_config event env) = (lower s = ''true'')"
    by (simp add: read_config_def dict_get_def getenv_def)
next
  assume "event ''dry_run'' = None \<and> env ''DRY_RUN'' = None"
  then show "\<not> dry_run (read_config event env)"
    by (simp add: read_config_def dict_get_def getenv_def lower_def lower_char_def)
next
  show "lower w = ''true'' \<longleftrightarrow>
        (\<exists>a b c d. w = [a, b, c, d] \<and> (a = CHR ''t'' \<or> a = CHR ''T'') \<and> (b = CHR ''r'' \<or> b = CHR ''R'')
           \<and> (c = CHR ''u'' \<or> c = CHR ''U'') \<and> (d = CHR ''e'' \<or> d = CHR ''E''))"
    by (rule lower_true)
next
  show "lower (py_str (PyBool b)) = ''true'' \<longleftrightarrow> b"
    by (simp add: lower_def lower_char_def)
next
  show "lower (py_str PyNone) \<noteq> ''true''"
    by (simp add: lower_def lower_char_def)
next
  show "lower (py_str (PyInt i)) \<noteq> ''true''"
    by (rule lower_int)
qed

theorem dry_run_resolution_witness:
  "[''dry_run'' \<mapsto> PyBool True] ''dry_run'' = Some (PyBool True)
   \<and> dry_run (read_config [''dry_run'' \<mapsto> PyBool True] [''DRY_RUN'' \<mapsto> ''false''])
   \<and> (Map.empty :: string \<rightharpoonup> pyval) ''dry_run'' = None
   \<and> [''DRY_RUN'' \<mapsto> ''TRUE''] ''DRY_RUN'' = Some ''TRUE''
   \<and> dry_run (read_config Map.empty [''DRY_RUN'' \<mapsto> ''TRUE''])
   \<and> (Map.empty :: string \<rightharpoonup> string) ''DRY_RUN'' = None
   \<and> \<not> dry_run (read_config Map.empty Map.empty)"
proof -
  have a: "[''dry_run'' \<mapsto> PyBool True] ''dry_run'' = Some (PyBool True)" by simp
  have b: "(Map.empty :: string \<rightharpoonup> pyval) ''dry_run'' = None
      \<and> [''DRY_RUN'' \<mapsto> ''TRUE''] ''DRY_RUN'' = Some ''TRUE''" by simp
  have c: "(Map.empty :: string \<rightharpoonup> pyval) ''dry_run'' = None
      \<and> (Map.empty :: string \<rightharpoonup> string) ''DRY_RUN'' = None" by simp
  have t1: "lower (py_str (PyBool True)) = ''true''" by (simp add: lower_def lower_char_def)
  have t2: "lower ''TRUE'' = ''true''" by (simp add: lower_def lower_char_def)
  have 1: "dry_run (read_config [''dry_run'' \<mapsto> PyBool True] [''DRY_RUN'' \<mapsto> ''false''])"
    using dry_run_resolution [of "[''dry_run'' \<mapsto> PyBool True]" "PyBool True"
        "[''DRY_RUN'' \<mapsto> ''false'']", THEN conjunct1, rule_format, OF a] t1 by simp
  have 2: "dry_run (read_config Map.empty [''DRY_RUN'' \<mapsto> ''TRUE''])"
    using dry_run_resolution [of Map.empty _ "[''DRY_RUN'' \<mapsto> ''TRUE'']" "''TRUE''",
        THEN conjunct2, THEN conjunct1, rule_format, OF b] t2 by simp
  have 3: "\<not> dry_run (read_config Map.empty Map.empty)"
    using dry_run_resolution [of Map.empty _ Map.empty,
        THEN conjunct2, THEN conjunct2, THEN conjunct1, rule_format, OF c] .
  from a b c 1 2 3 show ?thesis by blast
qed

end
